theory Spec2Isabelle
  imports Complex_Main "HOL-Library.Sublist" "HOL-Library.Log_Nat"
begin

section \<open>Python text primitives used by trade.py\<close>

text \<open>
  Text is a list of characters. The model covers ASCII text: the white space of
  \<^verbatim>\<open>str.strip\<close> is the ASCII white space, and the decimal digits are
  \<^verbatim>\<open>0\<close> to \<^verbatim>\<open>9\<close>. The only non-ASCII character of the program's own messages, the
  em dash, is written as its three UTF-8 bytes.
\<close>

definition is_space :: "char \<Rightarrow> bool" where
  "is_space c = (c \<in> set [CHR 0x09, CHR 0x0A, CHR 0x0B, CHR 0x0C, CHR 0x0D,
                          CHR 0x1C, CHR 0x1D, CHR 0x1E, CHR 0x1F, CHR 0x20])"

text \<open>\<^verbatim>\<open>s.strip()\<close>\<close>

definition strip :: "string \<Rightarrow> string" where
  "strip s = rev (dropWhile is_space (rev (dropWhile is_space s)))"

text \<open>\<^verbatim>\<open>s.split(sep)\<close> for a one-character separator: never returns the empty list.\<close>

fun split_on :: "char \<Rightarrow> string \<Rightarrow> string list" where
  "split_on sep [] = [[]]"
| "split_on sep (c # cs) =
     (if c = sep then [] # split_on sep cs
      else (case split_on sep cs of
              w # ws \<Rightarrow> (c # w) # ws
            | [] \<Rightarrow> [[c]]))"

text \<open>\<^verbatim>\<open>s.lower()\<close> on ASCII letters; every other character is kept.\<close>

definition lower_char :: "char \<Rightarrow> char" where
  "lower_char c =
     (case map_of (zip ''ABCDEFGHIJKLMNOPQRSTUVWXYZ'' ''abcdefghijklmnopqrstuvwxyz'') c of
        Some l \<Rightarrow> l
      | None \<Rightarrow> c)"

definition lower :: "string \<Rightarrow> string" where
  "lower s = map lower_char s"

text \<open>\<^verbatim>\<open>sep.join(xs)\<close>\<close>

fun join :: "string \<Rightarrow> string list \<Rightarrow> string" where
  "join sep [] = []"
| "join sep [x] = x"
| "join sep (x # y # ys) = x @ sep @ join sep (y # ys)"

text \<open>\<^verbatim>\<open>sub in s\<close> on strings: \<open>sub\<close> occurs in \<open>s\<close> as a contiguous block.\<close>

fun contains :: "string \<Rightarrow> string \<Rightarrow> bool" where
  "contains sub [] = (sub = [])"
| "contains sub (c # cs) = (prefix sub (c # cs) \<or> contains sub cs)"

text \<open>
  \<^verbatim>\<open>int(s)\<close> in base 10: white space around the number is ignored, one sign is
  allowed, and the digits may be grouped by single underscores between two digits.
  The white space \<^verbatim>\<open>int\<close> ignores in ASCII text is tab, line feed, vertical tab, form
  feed, carriage return and space; the separators 0x1C to 0x1F, which \<^verbatim>\<open>strip\<close>
  removes, make \<^verbatim>\<open>int\<close> fail. \<open>None\<close> stands for the \<^verbatim>\<open>ValueError\<close>.
\<close>

definition is_int_space :: "char \<Rightarrow> bool" where
  "is_int_space c = (c \<in> set [CHR 0x09, CHR 0x0A, CHR 0x0B, CHR 0x0C, CHR 0x0D, CHR 0x20])"

definition int_strip :: "string \<Rightarrow> string" where
  "int_strip s = rev (dropWhile is_int_space (rev (dropWhile is_int_space s)))"

definition digit_val :: "char \<Rightarrow> nat option" where
  "digit_val c = map_of (zip ''0123456789'' [0, 1, 2, 3, 4, 5, 6, 7, 8, 9]) c"

fun int_digits :: "nat \<Rightarrow> string \<Rightarrow> nat option" where
  "int_digits acc [] = Some acc"
| "int_digits acc [c] =
     (case digit_val c of None \<Rightarrow> None | Some v \<Rightarrow> Some (acc * 10 + v))"
| "int_digits acc (c # d # ds) =
     (if c = CHR ''_'' then
        (case digit_val d of
           None \<Rightarrow> None
         | Some v \<Rightarrow> int_digits (acc * 10 + v) ds)
      else
        (case digit_val c of
           None \<Rightarrow> None
         | Some v \<Rightarrow> int_digits (acc * 10 + v) (d # ds)))"

definition py_int :: "string \<Rightarrow> int option" where
  "py_int s =
     (let t = int_strip s;
          neg = (case t of c # _ \<Rightarrow> c = CHR ''-'' | [] \<Rightarrow> False);
          u = (case t of c # cs \<Rightarrow> if c = CHR ''-'' \<or> c = CHR ''+'' then cs else t | [] \<Rightarrow> [])
      in case u of
           [] \<Rightarrow> None
         | d # ds \<Rightarrow>
             (case digit_val d of
                None \<Rightarrow> None
              | Some v \<Rightarrow>
                  (case int_digits v ds of
                     None \<Rightarrow> None
                   | Some n \<Rightarrow> Some (if neg then - int n else int n))))"

section \<open>Times of day and trading windows\<close>

text \<open>
  \<^verbatim>\<open>datetime.time(hour=h, minute=m)\<close>: seconds and microseconds are always 0 here, so
  a time is its hour and its minute, compared as the pair.
\<close>

datatype pytime = Time (hour: nat) (minute: nat)

definition time_le :: "pytime \<Rightarrow> pytime \<Rightarrow> bool" where
  "time_le a b = (hour a < hour b \<or> (hour a = hour b \<and> minute a \<le> minute b))"

text \<open>The constructor raises \<^verbatim>\<open>ValueError\<close> outside 0..23 and 0..59.\<close>

definition mk_time :: "int \<Rightarrow> int \<Rightarrow> pytime option" where
  "mk_time h m =
     (if 0 \<le> h \<and> h \<le> 23 \<and> 0 \<le> m \<and> m \<le> 59 then Some (Time (nat h) (nat m)) else None)"

text \<open>
  \<^verbatim>\<open>parse_time_str\<close>: the unpacking \<^verbatim>\<open>h, m = map(int, ...)\<close> needs exactly two
  parts; every exception is caught and gives \<open>None\<close>.
\<close>

definition parse_time_str :: "string \<Rightarrow> pytime option" where
  "parse_time_str tstr =
     (case split_on CHR '':'' (strip tstr) of
        [a, b] \<Rightarrow>
          (case py_int a of
             None \<Rightarrow> None
           | Some h \<Rightarrow>
               (case py_int b of
                  None \<Rightarrow> None
                | Some m \<Rightarrow> mk_time h m))
      | _ \<Rightarrow> None)"

type_synonym window = "pytime \<times> pytime"

text \<open>\<^verbatim>\<open>time_in_windows\<close>: the first matching window returns \<open>True\<close>.\<close>

fun time_in_windows :: "pytime \<Rightarrow> window list \<Rightarrow> bool" where
  "time_in_windows t [] = False"
| "time_in_windows t ((s, e) # ws) =
     (if time_le s e then
        (if time_le s t \<and> time_le t e then True else time_in_windows t ws)
      else
        (if time_le s t \<or> time_le t e then True else time_in_windows t ws))"

text \<open>What the specification calls a window matching a time.\<close>

definition window_matches :: "pytime \<Rightarrow> window \<Rightarrow> bool" where
  "window_matches t w =
     (if time_le (fst w) (snd w) then time_le (fst w) t \<and> time_le t (snd w)
      else time_le (fst w) t \<or> time_le t (snd w))"

text \<open>
  \<^verbatim>\<open>parse_windows_input\<close>. The loop appends to \<open>windows\<close>. A part without a dash
  is skipped; the unpacking \<^verbatim>\<open>a, b = p.split("-")\<close> needs exactly two pieces and
  raises \<^verbatim>\<open>ValueError\<close> otherwise, which nothing catches. A \<^verbatim>\<open>datetime.time\<close> is
  always true in a condition (Python 3.5 and later), so \<^verbatim>\<open>if ta and tb\<close> tests that
  both times parsed.
\<close>

datatype error = ValueError

fun parse_parts :: "string list \<Rightarrow> window list \<Rightarrow> error + window list" where
  "parse_parts [] windows = Inr windows"
| "parse_parts (p # ps) windows =
     (if CHR ''-'' \<notin> set p then parse_parts ps windows
      else
        (case split_on CHR ''-'' p of
           [a, b] \<Rightarrow>
             (case parse_time_str a of
                None \<Rightarrow> parse_parts ps windows
              | Some ta \<Rightarrow>
                  (case parse_time_str b of
                     None \<Rightarrow> parse_parts ps windows
                   | Some tb \<Rightarrow> parse_parts ps (windows @ [(ta, tb)])))
         | _ \<Rightarrow> Inl ValueError))"

definition parse_windows_input :: "string \<Rightarrow> error + window list" where
  "parse_windows_input win_str =
     parse_parts (filter (\<lambda>p. p \<noteq> []) (map strip (split_on CHR '','' win_str))) []"

section \<open>Stop and target calculators\<close>

text \<open>
  Prices are Python floats, that is IEEE 754 binary64 numbers. A finite float is the
  rational it denotes, and an arithmetic operation gives the exact result rounded to
  the nearest float, a tie going to the even significand. Infinities, NaN and overflow
  are outside the model.
\<close>

definition round_half_even :: "rat \<Rightarrow> int" where
  "round_half_even y =
     (let f = \<lfloor>y\<rfloor>; d = y - of_int f
      in if d < 1 / 2 then f
         else if 1 / 2 < d then f + 1
         else if even f then f else f + 1)"

text \<open>
  The exponent of the last place of the float nearest to \<open>x\<close>: the one that puts
  the significand \<open>\<bar>x\<bar> / 2 ^ e\<close> between \<open>2 ^ 52\<close> and \<open>2 ^ 53\<close>, and \<open>- 1074\<close>
  for the subnormal numbers.
\<close>

definition float_exponent :: "rat \<Rightarrow> int" where
  "float_exponent x =
     (case quotient_of \<bar>x\<bar> of (p, q) \<Rightarrow>
        let e0 = bitlen p - bitlen q - 53;
            e1 = (if 2 ^ 53 \<le> \<bar>x\<bar> / 2 powi e0 then e0 + 1 else e0)
        in max (- 1074) e1)"

text \<open>Rounding a rational to the nearest float.\<close>

definition fl :: "rat \<Rightarrow> rat" where
  "fl x =
     (if x = 0 then 0
      else let e = float_exponent x
           in sgn x * of_int (round_half_even (\<bar>x\<bar> / 2 powi e)) * 2 powi e)"

text \<open>The float operations \<^verbatim>\<open>a + b\<close>, \<^verbatim>\<open>a - b\<close> and \<^verbatim>\<open>a * b\<close>.\<close>

definition fadd :: "rat \<Rightarrow> rat \<Rightarrow> rat" where
  "fadd a b = fl (a + b)"

definition fsub :: "rat \<Rightarrow> rat \<Rightarrow> rat" where
  "fsub a b = fl (a - b)"

definition fmul :: "rat \<Rightarrow> rat \<Rightarrow> rat" where
  "fmul a b = fl (a * b)"

text \<open>
  \<^verbatim>\<open>round(x, 5)\<close>: the decimal with five places nearest to the exact value of \<open>x\<close>,
  a tie going to the even digit, converted back to the nearest float.
\<close>

definition py_round5 :: "rat \<Rightarrow> rat" where
  "py_round5 x = fl (of_int (round_half_even (x * 100000)) / 100000)"

datatype direction = Long | Short

definition suggest_stop_from_atr :: "rat \<Rightarrow> direction \<Rightarrow> rat \<Rightarrow> rat \<Rightarrow> rat \<times> rat" where
  "suggest_stop_from_atr entry direction atr atr_multiplier =
     (let dist = fmul atr atr_multiplier;
          stop = (if direction = Long then py_round5 (fsub entry dist)
                  else py_round5 (fadd entry dist))
      in (stop, py_round5 dist))"

text \<open>\<^verbatim>\<open>r_multiples\<close>: the loop over \<open>r_list\<close>, appending to \<open>tps\<close>.\<close>

fun r_multiples_loop ::
  "rat \<Rightarrow> direction \<Rightarrow> rat \<Rightarrow> rat list \<Rightarrow> (rat \<times> rat) list \<Rightarrow> (rat \<times> rat) list" where
  "r_multiples_loop entry direction stop_dist [] tps = tps"
| "r_multiples_loop entry direction stop_dist (r # rs) tps =
     (let tp = (if direction = Long then py_round5 (fadd entry (fmul stop_dist r))
                else py_round5 (fsub entry (fmul stop_dist r)))
      in r_multiples_loop entry direction stop_dist rs (tps @ [(r, tp)]))"

definition r_multiples :: "rat \<Rightarrow> rat \<Rightarrow> direction \<Rightarrow> rat list \<Rightarrow> (rat \<times> rat) list" where
  "r_multiples entry stop direction r_list =
     r_multiples_loop entry direction \<bar>fsub entry stop\<bar> r_list []"

section \<open>The rules engine of main\<close>

datatype "structure" = Higher | Lower | Unclear

datatype market_env = Expansion | Consolidation | Reversal | Retracement

definition em_dash :: string where
  "em_dash = [CHR 0xE2, CHR 0x80, CHR 0x94]"

definition reason_unclear :: string where
  "reason_unclear =
     ''1H structure unclear '' @ em_dash @ '' prefer structure in trade direction.''"

definition reason_mismatch_long :: string where
  "reason_mismatch_long =
     ''1H structure is LOWER while you plan a LONG. That's a structural mismatch.''"

definition reason_mismatch_short :: string where
  "reason_mismatch_short =
     ''1H structure is HIGHER while you plan a SHORT. That's a structural mismatch.''"

definition reason_consolidation :: string where
  "reason_consolidation =
     ''Market consolidation '' @ em_dash @
     '' breakouts can be false; consider waiting for clear momentum.''"

definition reason_no_ict :: string where
  "reason_no_ict = ''Pattern present but no ICT-level confirmation.''"

definition reason_no_pattern :: string where
  "reason_no_pattern =
     ''ICT level(s) present but no classic pattern; may need further price reaction.''"

definition reason_no_confluence :: string where
  "reason_no_confluence =
     ''No patterns or ICT levels flagged '' @ em_dash @
     '' consider waiting for clearer confluence.''"

definition reason_outside :: string where
  "reason_outside =
     ''Setup time is outside your allowed trading windows '' @ em_dash @
     '' recommended to wait.''"

definition reason_no_stop :: string where
  "reason_no_stop =
     ''No stop provided and no ATR '' @ em_dash @ '' cannot auto-calc stop.''"

definition reason_no_entry :: string where
  "reason_no_entry =
     ''No entry price provided '' @ em_dash @ '' TP/stop calculations skipped.''"

text \<open>
  The time-of-setup check of main: \<open>time_ok\<close> starts true and is only changed when
  the text is not blank, parses, and windows are configured.
\<close>

definition check_time :: "string \<Rightarrow> window list \<Rightarrow> bool" where
  "check_time time_setup_str trading_windows =
     (if time_setup_str \<noteq> [] then
        (case parse_time_str time_setup_str of
           None \<Rightarrow> True
         | Some tsetup \<Rightarrow>
             (if trading_windows \<noteq> [] then time_in_windows tsetup trading_windows
              else True))
      else True)"

text \<open>The engine threads \<open>score\<close> and \<open>reasons\<close> through the four rules.\<close>

type_synonym tally = "int \<times> string list"

definition rule_structure :: "direction \<Rightarrow> structure \<Rightarrow> tally \<Rightarrow> tally" where
  "rule_structure direction structure_1h st =
     (case st of (score, reasons) \<Rightarrow>
        if direction = Long then
          (if structure_1h = Higher then (score + 2, reasons)
           else if structure_1h = Unclear then (score + 0, reasons @ [reason_unclear])
           else (score, reasons @ [reason_mismatch_long]))
        else
          (if structure_1h = Lower then (score + 2, reasons)
           else if structure_1h = Unclear then (score + 0, reasons @ [reason_unclear])
           else (score, reasons @ [reason_mismatch_short])))"

definition rule_environment ::
  "market_env \<Rightarrow> string list \<Rightarrow> bool \<Rightarrow> bool \<Rightarrow> bool \<Rightarrow> tally \<Rightarrow> tally" where
  "rule_environment market_env patterns fvg ob liq st =
     (case st of (score, reasons) \<Rightarrow>
        if market_env = Expansion then (score + 1, reasons)
        else if market_env = Consolidation then
          (if ''breakout'' \<in> set patterns
           then (score - 1, reasons @ [reason_consolidation])
           else (score, reasons))
        else if market_env = Reversal then
          (if ''engulfing'' \<in> set patterns \<or> ob then (score + 2, reasons)
           else (score, reasons))
        else if market_env = Retracement then
          (if fvg \<or> ob \<or> liq then (score + 1, reasons) else (score, reasons))
        else (score, reasons))"

definition ict_confirm :: "bool \<Rightarrow> bool \<Rightarrow> bool \<Rightarrow> bool" where
  "ict_confirm fvg ob liq = (fvg \<or> ob \<or> liq)"

definition pattern_confirm :: "string list \<Rightarrow> bool" where
  "pattern_confirm patterns =
     list_ex (\<lambda>p. p \<in> set [''engulfing'', ''breakout'', ''pinbar'', ''inside'']) patterns"

definition rule_confirmation :: "bool \<Rightarrow> bool \<Rightarrow> tally \<Rightarrow> tally" where
  "rule_confirmation ict pat st =
     (case st of (score, reasons) \<Rightarrow>
        if ict \<and> pat then (score + 3, reasons)
        else if pat then (score + 1, reasons @ [reason_no_ict])
        else if ict then (score + 1, reasons @ [reason_no_pattern])
        else (score, reasons @ [reason_no_confluence]))"

definition rule_timing :: "window list \<Rightarrow> string \<Rightarrow> bool \<Rightarrow> tally \<Rightarrow> tally" where
  "rule_timing trading_windows time_setup_str time_ok st =
     (case st of (score, reasons) \<Rightarrow>
        if trading_windows \<noteq> [] \<and> time_setup_str \<noteq> [] then
          (if \<not> time_ok then (score, reasons @ [reason_outside])
           else (score + 1, reasons))
        else (score, reasons))"

text \<open>The final pass/fail test scans the joined, lower-cased reasons for a keyword.\<close>

definition final_decision :: "string list \<Rightarrow> structure \<Rightarrow> bool \<Rightarrow> bool \<Rightarrow> bool" where
  "final_decision reasons structure_1h pat ict =
     (if contains ''mismatch'' (lower (join '' '' reasons))
         \<or> (structure_1h = Unclear \<and> \<not> (pat \<and> ict))
         \<or> \<not> (pat \<or> ict)
      then False else True)"

definition rules_engine ::
  "direction \<Rightarrow> structure \<Rightarrow> market_env \<Rightarrow> string list \<Rightarrow> bool \<Rightarrow> bool \<Rightarrow> bool \<Rightarrow>
   window list \<Rightarrow> string \<Rightarrow> bool \<Rightarrow> int \<times> string list \<times> bool" where
  "rules_engine direction structure_1h market_env patterns fvg ob liq
                trading_windows time_setup_str time_ok =
     (let ict = ict_confirm fvg ob liq;
          pat = pattern_confirm patterns;
          st = rule_timing trading_windows time_setup_str time_ok
                 (rule_confirmation ict pat
                    (rule_environment market_env patterns fvg ob liq
                       (rule_structure direction structure_1h (0, []))))
      in (fst st, snd st, final_decision (snd st) structure_1h pat ict))"

section \<open>Stop, targets and position sizing in main\<close>

text \<open>
  The text typed at a numeric prompt, after \<^verbatim>\<open>strip\<close>, by what \<^verbatim>\<open>float\<close> does
  with it: blank, not a number (\<^verbatim>\<open>float\<close> raises), or a number.
\<close>

datatype num_text = Blank | Garbage | Numeric rat

definition nonblank :: "num_text \<Rightarrow> bool" where
  "nonblank s = (s \<noteq> Blank)"

definition py_float :: "num_text \<Rightarrow> rat option" where
  "py_float s = (case s of Numeric x \<Rightarrow> Some x | _ \<Rightarrow> None)"

text \<open>The pattern of the entry, stop and ATR prompts: blank or unparsable is \<open>None\<close>.\<close>

definition float_or_none :: "num_text \<Rightarrow> rat option" where
  "float_or_none s = (if s \<noteq> Blank then py_float s else None)"

text \<open>A reason of the final report: a fixed text, or the formatted ATR note.\<close>

datatype reason = Text string | StopAutoCalculated rat

text \<open>Truth value of \<^verbatim>\<open>None\<close> or a float in a condition.\<close>

definition truthy :: "rat option \<Rightarrow> bool" where
  "truthy x = (case x of None \<Rightarrow> False | Some v \<Rightarrow> v \<noteq> 0)"

text \<open>Returns \<open>suggested_stop\<close>, \<open>stop_distance\<close> and the reasons appended.\<close>

definition stop_stage ::
  "direction \<Rightarrow> rat option \<Rightarrow> rat option \<Rightarrow> rat option \<Rightarrow>
   rat option \<times> rat option \<times> reason list" where
  "stop_stage direction entry stop_price atr =
     (case entry of
        Some en \<Rightarrow>
          (case stop_price of
             None \<Rightarrow>
               (case atr of
                  Some a \<Rightarrow>
                    (case suggest_stop_from_atr en direction a (3 / 2) of
                       (st, sd) \<Rightarrow> (Some st, Some sd, [StopAutoCalculated sd]))
                | None \<Rightarrow> (stop_price, None, [Text reason_no_stop]))
           | Some sp \<Rightarrow> (stop_price, Some (py_round5 \<bar>fsub en sp\<bar>), []))
      | None \<Rightarrow> (stop_price, None, [Text reason_no_entry]))"

definition used_stop_of :: "rat option \<Rightarrow> rat option \<Rightarrow> rat option" where
  "used_stop_of suggested_stop stop_price =
     (if suggested_stop \<noteq> None then suggested_stop else stop_price)"

definition take_profits ::
  "direction \<Rightarrow> rat option \<Rightarrow> rat option \<Rightarrow> rat option \<Rightarrow> (rat \<times> rat) list" where
  "take_profits direction entry suggested_stop stop_price =
     (case entry of
        None \<Rightarrow> []
      | Some en \<Rightarrow>
          (if truthy suggested_stop \<or> truthy stop_price then
             (case used_stop_of suggested_stop stop_price of
                Some used_stop \<Rightarrow> r_multiples en used_stop direction [1, 3 / 2, 2]
              | None \<Rightarrow> [])
           else []))"

text \<open>
  The sizing hint. \<open>Sized risk_amount qty\<close> stands for the message that shows both
  numbers with two decimals; \<open>SizingError\<close> for the message of a caught exception.
  The two numbers are kept as the exact quotients here, not as the floats the program
  computes before it formats them to two decimals.
\<close>

datatype pos_hint =
  NoStopAvailable | ZeroStopDistance | Sized rat rat | ProvideBoth | SizingError

definition position_sizing ::
  "num_text \<Rightarrow> num_text \<Rightarrow> rat option \<Rightarrow> rat option \<Rightarrow> rat option \<Rightarrow> pos_hint option" where
  "position_sizing acct_s risk_pct_s entry stop_price suggested_stop =
     (if nonblank acct_s \<and> nonblank risk_pct_s \<and> entry \<noteq> None
         \<and> (stop_price \<noteq> None \<or> suggested_stop \<noteq> None) then
        (case py_float acct_s of
           None \<Rightarrow> Some SizingError
         | Some acct \<Rightarrow>
             (case py_float risk_pct_s of
                None \<Rightarrow> Some SizingError
              | Some risk_pct \<Rightarrow>
                  (let risk_amount = acct * (risk_pct / 100)
                   in case used_stop_of suggested_stop stop_price of
                        None \<Rightarrow> Some NoStopAvailable
                      | Some used_stop \<Rightarrow>
                          (let stop_dist_price = \<bar>the entry - used_stop\<bar>
                           in if stop_dist_price = 0 then Some ZeroStopDistance
                              else Some (Sized risk_amount (risk_amount / stop_dist_price))))))
      else if nonblank acct_s \<or> nonblank risk_pct_s then Some ProvideBoth
      else None)"

section \<open>The whole run\<close>

text \<open>
  What the user types. The prompts read through \<^verbatim>\<open>get_input\<close> only return one of
  their valid options, so they are values of the enumerations (\<open>True\<close> for \<^verbatim>\<open>y\<close>).
\<close>

record inputs =
  win_text :: string
  direction :: direction
  structure_1h :: "structure"
  market_env :: market_env
  patterns_text :: string
  fvg :: bool
  ob :: bool
  liq :: bool
  time_text :: string
  entry_s :: num_text
  stop_s :: num_text
  atr_s :: num_text
  acct_s :: num_text
  risk_pct_s :: num_text

record result =
  time_ok :: bool
  score :: int
  reasons :: "reason list"
  should_trade :: bool
  suggested_stop :: "rat option"
  stop_distance :: "rat option"
  tps :: "(rat \<times> rat) list"
  pos_hint :: "pos_hint option"
  valid :: bool

definition patterns_of :: "string \<Rightarrow> string list" where
  "patterns_of patterns_raw =
     (let patterns = map (\<lambda>p. lower (strip p))
                         (filter (\<lambda>p. strip p \<noteq> []) (split_on CHR '','' patterns_raw))
      in if patterns = [] then [''none''] else patterns)"

text \<open>Everything main does after the prompts, for parsed trading windows.\<close>

definition run_engine :: "inputs \<Rightarrow> window list \<Rightarrow> result" where
  "run_engine i trading_windows =
     (let patterns = patterns_of (strip (patterns_text i));
          time_setup_str = strip (time_text i);
          ok = check_time time_setup_str trading_windows;
          entry = float_or_none (entry_s i);
          stop_price = float_or_none (stop_s i);
          atr = (if entry \<noteq> None \<and> stop_price = None then float_or_none (atr_s i) else None);
          eng = rules_engine (direction i) (structure_1h i) (market_env i) patterns
                  (fvg i) (ob i) (liq i) trading_windows time_setup_str ok;
          stp = stop_stage (direction i) entry stop_price atr;
          sugg = fst stp
      in \<lparr> time_ok = ok,
           score = fst eng,
           reasons = map Text (fst (snd eng)) @ snd (snd stp),
           should_trade = snd (snd eng),
           suggested_stop = sugg,
           stop_distance = fst (snd stp),
           tps = take_profits (direction i) entry sugg stop_price,
           pos_hint = position_sizing (acct_s i) (risk_pct_s i) entry stop_price sugg,
           valid = (snd (snd eng) \<and> 3 \<le> fst eng) \<rparr>)"

text \<open>
  main: the windows are parsed first (an exception there ends the run), \<^verbatim>\<open>q\<close> at
  the patterns prompt returns before any evaluation (\<open>Inr None\<close>).
\<close>

definition main :: "inputs \<Rightarrow> error + result option" where
  "main i =
     (let win_input = strip (win_text i)
      in case (if win_input \<noteq> [] then parse_windows_input win_input else Inr []) of
           Inl e \<Rightarrow> Inl e
         | Inr trading_windows \<Rightarrow>
             (if lower (strip (patterns_text i)) = ''q'' then Inr None
              else Inr (Some (run_engine i trading_windows))))"

section \<open>Time windows\<close>

lemma time_in_windows_iff:
  "time_in_windows t ws = (\<exists>w \<in> set ws. window_matches t w)"
proof (induction ws)
  case Nil
  show ?case by simp
next
  case (Cons w ws)
  obtain s e where w: "w = (s, e)" by (cases w)
  show ?case unfolding w using Cons.IH by (simp add: window_matches_def)
qed

lemma window_matches_spec:
  "window_matches t w =
     ((time_le (fst w) (snd w) \<and> time_le (fst w) t \<and> time_le t (snd w)) \<or>
      (\<not> time_le (fst w) (snd w) \<and> (time_le (fst w) t \<or> time_le t (snd w))))"
  by (simp add: window_matches_def)

text \<open>
  C3: for every time and every non-empty list of windows, \<open>time_in_windows\<close> is
  true exactly when some window matches, a window with start at most end matching the
  closed interval and a window with start after end matching \<open>t \<ge> start\<close> or
  \<open>t \<le> end\<close>; (09:30, 11:30) contains 09:30 and 11:30 but not 11:31, and
  (22:00, 02:00) contains 23:30 and 01:00 but not 12:00.
\<close>

theorem C3_time_in_windows:
  "(ws \<noteq> [] \<longrightarrow>
     time_in_windows t ws =
       (\<exists>w \<in> set ws.
          (time_le (fst w) (snd w) \<and> time_le (fst w) t \<and> time_le t (snd w)) \<or>
          (\<not> time_le (fst w) (snd w) \<and> (time_le (fst w) t \<or> time_le t (snd w))))) \<and>
   time_in_windows (Time 9 30) [(Time 9 30, Time 11 30)] \<and>
   time_in_windows (Time 11 30) [(Time 9 30, Time 11 30)] \<and>
   \<not> time_in_windows (Time 11 31) [(Time 9 30, Time 11 30)] \<and>
   time_in_windows (Time 23 30) [(Time 22 0, Time 2 0)] \<and>
   time_in_windows (Time 1 0) [(Time 22 0, Time 2 0)] \<and>
   \<not> time_in_windows (Time 12 0) [(Time 22 0, Time 2 0)]"
proof -
  have general: "time_in_windows t ws =
       (\<exists>w \<in> set ws.
          (time_le (fst w) (snd w) \<and> time_le (fst w) t \<and> time_le t (snd w)) \<or>
          (\<not> time_le (fst w) (snd w) \<and> (time_le (fst w) t \<or> time_le t (snd w))))"
    unfolding time_in_windows_iff window_matches_spec ..
  have examples: "time_in_windows (Time 9 30) [(Time 9 30, Time 11 30)]"
    "time_in_windows (Time 11 30) [(Time 9 30, Time 11 30)]"
    "\<not> time_in_windows (Time 11 31) [(Time 9 30, Time 11 30)]"
    "time_in_windows (Time 23 30) [(Time 22 0, Time 2 0)]"
    "time_in_windows (Time 1 0) [(Time 22 0, Time 2 0)]"
    "\<not> time_in_windows (Time 12 0) [(Time 22 0, Time 2 0)]"
    by (simp_all add: time_le_def)
  from general examples show ?thesis by blast
qed

theorem C3_time_in_windows_witness:
  "[(Time 22 0, Time 2 0), (Time 9 30, Time 11 30)] \<noteq> [] \<and>
   time_in_windows (Time 10 15) [(Time 22 0, Time 2 0), (Time 9 30, Time 11 30)]"
  using C3_time_in_windows [of "[(Time 22 0, Time 2 0), (Time 9 30, Time 11 30)]" "Time 10 15"]
  by (simp add: time_le_def)

section \<open>Scanning the reasons for the keyword\<close>

lemma contains_iff_sublist: "contains sub s = sublist sub s"
  by (induction s) (simp_all add: sublist_Cons_right)

lemma lower_char_space: "lower_char CHR '' '' = CHR '' ''"
  by (simp add: lower_char_def)

lemma lower_append: "lower (a @ b) = lower a @ lower b"
  by (simp add: lower_def)

lemma lower_join: "lower (join '' '' rs) = join '' '' (map lower rs)"
  by (induction rs rule: induct_list012) (simp_all add: lower_def lower_char_space)

lemma sublist_sep:
  assumes "c \<notin> set n" and "n \<noteq> []"
  shows "sublist n (a @ c # b) = (sublist n a \<or> sublist n b)"
proof
  assume "sublist n (a @ c # b)"
  then obtain ps ss where eq: "a @ c # b = ps @ n @ ss" by (auto simp: sublist_def)
  then show "sublist n a \<or> sublist n b"
  proof (cases "length (ps @ n) \<le> length a")
    case True
    from eq have "take (length (ps @ n)) (a @ c # b) = ps @ n" by (metis append.assoc append_eq_conv_conj)
    with True have "take (length (ps @ n)) a = ps @ n" by simp
    then have "a = ps @ n @ drop (length (ps @ n)) a" by (metis append.assoc append_take_drop_id)
    then show ?thesis unfolding sublist_def by blast
  next
    case False
    then have len: "length a < length ps + length n" by simp
    show ?thesis
    proof (cases "length a < length ps")
      case True
      from eq have "drop (Suc (length a)) (a @ c # b) = drop (Suc (length a)) (ps @ n @ ss)" by simp
      then have "b = drop (Suc (length a)) ps @ n @ ss" using True by simp
      then show ?thesis unfolding sublist_def by blast
    next
      case False
      with len have k: "length a - length ps < length n" by arith
      from eq have "(a @ c # b) ! length a = (ps @ n @ ss) ! length a" by simp
      then have "c = (n @ ss) ! (length a - length ps)" using False by (simp add: nth_append)
      also have "\<dots> = n ! (length a - length ps)" using k by (simp add: nth_append)
      finally have "c \<in> set n" using k by simp
      with assms show ?thesis by simp
    qed
  qed
next
  assume "sublist n a \<or> sublist n b"
  then show "sublist n (a @ c # b)"
  proof
    assume "sublist n a"
    then obtain ps ss where "a = ps @ n @ ss" by (auto simp: sublist_def)
    then have "a @ c # b = ps @ n @ (ss @ c # b)" by simp
    then show ?thesis unfolding sublist_def by blast
  next
    assume "sublist n b"
    then obtain ps ss where "b = ps @ n @ ss" by (auto simp: sublist_def)
    then have "a @ c # b = (a @ c # ps) @ n @ ss" by simp
    then show ?thesis unfolding sublist_def by blast
  qed
qed

lemma contains_join:
  assumes "CHR '' '' \<notin> set n" and "n \<noteq> []"
  shows "contains n (join '' '' rs) = (\<exists>r \<in> set rs. contains n r)"
proof (induction rs rule: induct_list012)
  case 1
  show ?case using assms by simp
next
  case (2 x)
  show ?case by simp
next
  case (3 x y ys)
  have "contains n (join '' '' (x # y # ys)) = sublist n (x @ CHR '' '' # join '' '' (y # ys))"
    by (simp add: contains_iff_sublist)
  also have "\<dots> = (sublist n x \<or> sublist n (join '' '' (y # ys)))"
    by (rule sublist_sep [OF assms])
  finally show ?case using "3.IH"(2) by (simp add: contains_iff_sublist)
qed

lemma mismatch_scan:
  "contains ''mismatch'' (lower (join '' '' rs)) = (\<exists>r \<in> set rs. contains ''mismatch'' (lower r))"
  by (simp add: lower_join contains_join)

lemma scan_unclear: "\<not> contains ''mismatch'' (lower reason_unclear)"
  by (simp add: reason_unclear_def em_dash_def lower_def lower_char_def)
lemma scan_mismatch_long: "contains ''mismatch'' (lower reason_mismatch_long)"
  by (simp add: reason_mismatch_long_def lower_def lower_char_def)
lemma scan_mismatch_short: "contains ''mismatch'' (lower reason_mismatch_short)"
  by (simp add: reason_mismatch_short_def lower_def lower_char_def)
lemma scan_consolidation: "\<not> contains ''mismatch'' (lower reason_consolidation)"
  by (simp add: reason_consolidation_def em_dash_def lower_def lower_char_def)
lemma scan_no_ict: "\<not> contains ''mismatch'' (lower reason_no_ict)"
  by (simp add: reason_no_ict_def lower_def lower_char_def)
lemma scan_no_pattern: "\<not> contains ''mismatch'' (lower reason_no_pattern)"
  by (simp add: reason_no_pattern_def lower_def lower_char_def)
lemma scan_no_confluence: "\<not> contains ''mismatch'' (lower reason_no_confluence)"
  by (simp add: reason_no_confluence_def em_dash_def lower_def lower_char_def)
lemma scan_outside: "\<not> contains ''mismatch'' (lower reason_outside)"
  by (simp add: reason_outside_def em_dash_def lower_def lower_char_def)

section \<open>The final decision\<close>

lemmas scans = scan_unclear scan_mismatch_long scan_mismatch_short scan_consolidation
  scan_no_ict scan_no_pattern scan_no_confluence scan_outside

lemmas rule_defs = rules_engine_def rule_structure_def rule_environment_def
  rule_confirmation_def rule_timing_def

lemma reason_neq:
  "reason_unclear \<noteq> reason_mismatch_long" "reason_unclear \<noteq> reason_mismatch_short"
  "reason_consolidation \<noteq> reason_mismatch_long" "reason_consolidation \<noteq> reason_mismatch_short"
  "reason_no_ict \<noteq> reason_mismatch_long" "reason_no_ict \<noteq> reason_mismatch_short"
  "reason_no_pattern \<noteq> reason_mismatch_long" "reason_no_pattern \<noteq> reason_mismatch_short"
  "reason_no_confluence \<noteq> reason_mismatch_long" "reason_no_confluence \<noteq> reason_mismatch_short"
  "reason_outside \<noteq> reason_mismatch_long" "reason_outside \<noteq> reason_mismatch_short"
  using scans by metis+

lemma mismatch_long_neq_short: "reason_mismatch_long \<noteq> reason_mismatch_short"
  by (simp add: reason_mismatch_long_def reason_mismatch_short_def)

lemma engine_reasons_cases:
  "set (fst (snd (rules_engine d s e p fv obk lq ws ts ok))) \<subseteq>
     {reason_unclear, reason_mismatch_long, reason_mismatch_short, reason_consolidation,
      reason_no_ict, reason_no_pattern, reason_no_confluence, reason_outside}"
  by (simp add: rule_defs Let_def)

lemma engine_mismatch_long:
  "(reason_mismatch_long \<in> set (fst (snd (rules_engine d s e p fv obk lq ws ts ok)))) =
     (d = Long \<and> s = Lower)"
  by (cases d; cases s)
     (simp_all add: rule_defs Let_def reason_neq reason_neq [symmetric] mismatch_long_neq_short)

lemma engine_mismatch_short:
  "(reason_mismatch_short \<in> set (fst (snd (rules_engine d s e p fv obk lq ws ts ok)))) =
     (d = Short \<and> s = Higher)"
  by (cases d; cases s)
     (simp_all add: rule_defs Let_def reason_neq reason_neq [symmetric]
        mismatch_long_neq_short [symmetric])

lemma engine_scan:
  "contains ''mismatch'' (lower (join '' '' (fst (snd (rules_engine d s e p fv obk lq ws ts ok))))) =
     ((d = Long \<and> s = Lower) \<or> (d = Short \<and> s = Higher))"
  unfolding mismatch_scan
  by (cases d; cases s) (simp_all add: rule_defs Let_def scans)

lemma engine_should_trade:
  "snd (snd (rules_engine d s e p fv obk lq ws ts ok)) =
     (\<not> (((d = Long \<and> s = Lower) \<or> (d = Short \<and> s = Higher))
         \<or> (s = Unclear \<and> \<not> (pattern_confirm p \<and> ict_confirm fv obk lq))
         \<or> \<not> (pattern_confirm p \<or> ict_confirm fv obk lq)))"
proof -
  have "snd (snd (rules_engine d s e p fv obk lq ws ts ok)) =
      final_decision (fst (snd (rules_engine d s e p fv obk lq ws ts ok))) s
        (pattern_confirm p) (ict_confirm fv obk lq)"
    by (simp add: rules_engine_def Let_def)
  then show ?thesis
    unfolding final_decision_def engine_scan by simp
qed

text \<open>
  C1: the engine's \<open>should_trade\<close> is false exactly when rule 1 recorded a structural
  mismatch reason, or the structure is unclear and not both confirmations hold, or
  neither confirmation holds; otherwise it is true.
\<close>

theorem C1_should_trade:
  "(snd (snd (rules_engine d s e p fv obk lq ws ts ok)) = False) =
     ((reason_mismatch_long \<in> set (fst (snd (rules_engine d s e p fv obk lq ws ts ok)))
        \<or> reason_mismatch_short \<in> set (fst (snd (rules_engine d s e p fv obk lq ws ts ok))))
      \<or> (s = Unclear \<and> \<not> (pattern_confirm p \<and> ict_confirm fv obk lq))
      \<or> \<not> (pattern_confirm p \<or> ict_confirm fv obk lq))"
  unfolding engine_mismatch_long engine_mismatch_short engine_should_trade by simp

theorem C1_should_trade_witness:
  "snd (snd (rules_engine Long Lower Expansion [''breakout''] True False False [] [] True)) = False
   \<and> snd (snd (rules_engine Long Higher Expansion [''breakout''] True False False [] [] True)) = True"
  using C1_should_trade [of Long Lower Expansion "[''breakout'']" True False False "[]" "[]" True]
        C1_should_trade [of Long Higher Expansion "[''breakout'']" True False False "[]" "[]" True]
  by (simp add: engine_mismatch_long engine_mismatch_short pattern_confirm_def ict_confirm_def)

section \<open>Score, decision and verdict of a run\<close>

lemma run_engine_fields:
  "time_ok (run_engine i ws) = check_time (strip (time_text i)) ws"
  "score (run_engine i ws) =
     fst (rules_engine (direction i) (structure_1h i) (market_env i)
            (patterns_of (strip (patterns_text i))) (fvg i) (ob i) (liq i) ws
            (strip (time_text i)) (check_time (strip (time_text i)) ws))"
  "should_trade (run_engine i ws) =
     snd (snd (rules_engine (direction i) (structure_1h i) (market_env i)
            (patterns_of (strip (patterns_text i))) (fvg i) (ob i) (liq i) ws
            (strip (time_text i)) (check_time (strip (time_text i)) ws)))"
  "valid (run_engine i ws) = (should_trade (run_engine i ws) \<and> 3 \<le> score (run_engine i ws))"
  by (simp_all add: run_engine_def Let_def)

lemma pattern_confirm_set:
  "pattern_confirm p =
     (\<exists>x \<in> set p. x \<in> {''engulfing'', ''breakout'', ''pinbar'', ''inside''})"
  by (simp add: pattern_confirm_def list_ex_iff)

lemma breakout_confirms: "''breakout'' \<in> set p \<Longrightarrow> pattern_confirm p"
  unfolding pattern_confirm_set by blast

lemma engine_score_bounds:
  "0 \<le> fst (rules_engine d s e p fv obk lq ws ts ok)"
  "snd (snd (rules_engine d s e p fv obk lq ws ts ok)) \<Longrightarrow>
     2 \<le> fst (rules_engine d s e p fv obk lq ws ts ok)"
proof -
  let ?pc = "pattern_confirm p" and ?ic = "ict_confirm fv obk lq"
  let ?bk = "''breakout'' \<in> set p"
  have b: "?bk \<longrightarrow> ?pc" using breakout_confirms by blast
  show "0 \<le> fst (rules_engine d s e p fv obk lq ws ts ok)"
    using b by (cases d; cases s; cases e; cases ?pc; cases ?ic; cases ?bk)
      (simp_all add: rule_defs Let_def)
  show "2 \<le> fst (rules_engine d s e p fv obk lq ws ts ok)"
    if "snd (snd (rules_engine d s e p fv obk lq ws ts ok))"
    using that b unfolding engine_should_trade
    by (cases d; cases s; cases e; cases ?pc; cases ?ic; cases ?bk)
      (simp_all add: rule_defs Let_def)
qed

lemma strip_plain [simp]: "strip '''' = ''''" "strip ''breakout'' = ''breakout''"
  by (simp_all add: strip_def is_space_def)

lemma patterns_breakout: "patterns_of ''breakout'' = [''breakout'']"
  by (simp add: patterns_of_def strip_def is_space_def lower_def lower_char_def)

lemma main_no_windows:
  "strip (win_text i) = [] \<Longrightarrow> lower (strip (patterns_text i)) \<noteq> ''q'' \<Longrightarrow>
     main i = Inr (Some (run_engine i []))"
  by (simp add: main_def)

text \<open>
  C2: long, structure higher, expansion, patterns breakout, FVG yes, order block no,
  liquidity no, no trading windows and no setup time: the run reports score 6 (2 from
  the structure, 1 from the environment, 3 from the double confirmation),
  \<open>should_trade\<close> true and the verdict valid, whatever the numeric fields are.
\<close>

theorem C2_scenario:
  "\<exists>r. main \<lparr> win_text = '''', direction = Long, structure_1h = Higher,
                market_env = Expansion, patterns_text = ''breakout'', fvg = True,
                ob = False, liq = False, time_text = '''', entry_s = ne, stop_s = ns,
                atr_s = na, acct_s = nc, risk_pct_s = nr \<rparr> = Inr (Some r)
       \<and> score r = 6 \<and> should_trade r = True \<and> valid r = True
       \<and> fst (rule_structure Long Higher (0, [])) = 2
       \<and> fst (rule_environment Expansion [''breakout''] True False False (0, [])) = 1
       \<and> fst (rule_confirmation (ict_confirm True False False)
                 (pattern_confirm [''breakout'']) (0, [])) = 3"
proof -
  let ?i = "\<lparr> win_text = '''', direction = Long, structure_1h = Higher,
                market_env = Expansion, patterns_text = ''breakout'', fvg = True,
                ob = False, liq = False, time_text = '''', entry_s = ne, stop_s = ns,
                atr_s = na, acct_s = nc, risk_pct_s = nr \<rparr>"
  have pc: "pattern_confirm [''breakout'']" by (simp add: pattern_confirm_def)
  have ic: "ict_confirm True False False" by (simp add: ict_confirm_def)
  have m: "main ?i = Inr (Some (run_engine ?i []))"
    by (rule main_no_windows) (simp_all add: lower_def lower_char_def)
  have sc: "score (run_engine ?i []) = 6"
    by (simp add: run_engine_fields patterns_breakout rule_defs pc ic Let_def)
  have st: "should_trade (run_engine ?i []) = True"
    by (simp add: run_engine_fields patterns_breakout engine_should_trade pc ic)
  have va: "valid (run_engine ?i []) = True"
    using sc st by (simp add: run_engine_fields(4))
  have parts: "fst (rule_structure Long Higher (0, [])) = 2"
    "fst (rule_environment Expansion [''breakout''] True False False (0, [])) = 1"
    "fst (rule_confirmation (ict_confirm True False False)
                 (pattern_confirm [''breakout'']) (0, [])) = 3"
    by (simp_all add: rule_defs pc ic)
  from m sc st va parts show ?thesis by blast
qed

theorem C2_scenario_witness:
  "\<exists>r. main \<lparr> win_text = '''', direction = Long, structure_1h = Higher,
                market_env = Expansion, patterns_text = ''breakout'', fvg = True,
                ob = False, liq = False, time_text = '''', entry_s = Blank, stop_s = Blank,
                atr_s = Blank, acct_s = Blank, risk_pct_s = Blank \<rparr> = Inr (Some r)
       \<and> score r = 6 \<and> should_trade r = True \<and> valid r = True"
  using C2_scenario [of Blank Blank Blank Blank Blank] by blast

text \<open>
  The score is never negative, so no run has \<open>should_trade\<close> true with a negative
  score.
\<close>

theorem C10_counterexample:
  "\<not> (\<exists>i ws. should_trade (run_engine i ws) \<and> score (run_engine i ws) < 0)"
proof
  assume "\<exists>i ws. should_trade (run_engine i ws) \<and> score (run_engine i ws) < 0"
  then obtain i ws where "score (run_engine i ws) < 0" by blast
  moreover have "0 \<le> score (run_engine i ws)"
    unfolding run_engine_fields by (rule engine_score_bounds)
  ultimately show False by simp
qed

text \<open>
  C10 (amended): two setups that agree on direction, structure, the set of patterns and
  the three ICT flags get the same \<open>should_trade\<close>, whatever the environment, the
  setup time, the windows and the numeric fields are; \<open>should_trade\<close> can be true with
  a score below 3 (the run shown scores 2); the score is never negative and is at least
  2 whenever \<open>should_trade\<close> is true.
\<close>

theorem C10_should_trade_inputs:
  "(direction i = direction i' \<and> structure_1h i = structure_1h i'
      \<and> set (patterns_of (strip (patterns_text i))) = set (patterns_of (strip (patterns_text i')))
      \<and> fvg i = fvg i' \<and> ob i = ob i' \<and> liq i = liq i'
     \<longrightarrow> should_trade (run_engine i ws) = should_trade (run_engine i' ws'))
   \<and> should_trade (run_engine
         \<lparr> win_text = '''', direction = Long, structure_1h = Higher,
           market_env = Consolidation, patterns_text = ''breakout'', fvg = False,
           ob = False, liq = False, time_text = '''', entry_s = Blank, stop_s = Blank,
           atr_s = Blank, acct_s = Blank, risk_pct_s = Blank \<rparr> []) = True
   \<and> score (run_engine
         \<lparr> win_text = '''', direction = Long, structure_1h = Higher,
           market_env = Consolidation, patterns_text = ''breakout'', fvg = False,
           ob = False, liq = False, time_text = '''', entry_s = Blank, stop_s = Blank,
           atr_s = Blank, acct_s = Blank, risk_pct_s = Blank \<rparr> []) = 2
   \<and> (should_trade (run_engine i ws) \<longrightarrow> 2 \<le> score (run_engine i ws))
   \<and> 0 \<le> score (run_engine i ws)"
proof -
  have pc: "pattern_confirm [''breakout'']" by (simp add: pattern_confirm_def)
  have ic: "\<not> ict_confirm False False False" by (simp add: ict_confirm_def)
  have same: "should_trade (run_engine i ws) = should_trade (run_engine i' ws')"
    if "direction i = direction i'" "structure_1h i = structure_1h i'"
       "set (patterns_of (strip (patterns_text i))) = set (patterns_of (strip (patterns_text i')))"
       "fvg i = fvg i'" "ob i = ob i'" "liq i = liq i'"
    using that by (simp add: run_engine_fields engine_should_trade pattern_confirm_set)
  have ex1: "should_trade (run_engine
         \<lparr> win_text = '''', direction = Long, structure_1h = Higher,
           market_env = Consolidation, patterns_text = ''breakout'', fvg = False,
           ob = False, liq = False, time_text = '''', entry_s = Blank, stop_s = Blank,
           atr_s = Blank, acct_s = Blank, risk_pct_s = Blank \<rparr> []) = True"
    by (simp add: run_engine_fields patterns_breakout engine_should_trade pc ic)
  have ex2: "score (run_engine
         \<lparr> win_text = '''', direction = Long, structure_1h = Higher,
           market_env = Consolidation, patterns_text = ''breakout'', fvg = False,
           ob = False, liq = False, time_text = '''', entry_s = Blank, stop_s = Blank,
           atr_s = Blank, acct_s = Blank, risk_pct_s = Blank \<rparr> []) = 2"
    by (simp add: run_engine_fields patterns_breakout rule_defs pc ic Let_def)
  have lo: "should_trade (run_engine i ws) \<longrightarrow> 2 \<le> score (run_engine i ws)"
    unfolding run_engine_fields using engine_score_bounds(2) by blast
  have nonneg: "0 \<le> score (run_engine i ws)"
    unfolding run_engine_fields by (rule engine_score_bounds)
  from same ex1 ex2 lo nonneg show ?thesis by blast
qed

theorem C10_should_trade_inputs_witness:
  "should_trade (run_engine
      \<lparr> win_text = '''', direction = Short, structure_1h = Lower,
        market_env = Reversal, patterns_text = ''pinbar'', fvg = False,
        ob = True, liq = False, time_text = ''10:00'', entry_s = Numeric 2, stop_s = Blank,
        atr_s = Blank, acct_s = Blank, risk_pct_s = Blank \<rparr> [(Time 9 0, Time 11 0)])
   = should_trade (run_engine
      \<lparr> win_text = '''', direction = Short, structure_1h = Lower,
        market_env = Expansion, patterns_text = ''pinbar'', fvg = False,
        ob = True, liq = False, time_text = '''', entry_s = Blank, stop_s = Blank,
        atr_s = Blank, acct_s = Blank, risk_pct_s = Blank \<rparr> [])"
  using C10_should_trade_inputs
    [of "\<lparr> win_text = '''', direction = Short, structure_1h = Lower,
        market_env = Reversal, patterns_text = ''pinbar'', fvg = False,
        ob = True, liq = False, time_text = ''10:00'', entry_s = Numeric 2, stop_s = Blank,
        atr_s = Blank, acct_s = Blank, risk_pct_s = Blank \<rparr>"
        "\<lparr> win_text = '''', direction = Short, structure_1h = Lower,
        market_env = Expansion, patterns_text = ''pinbar'', fvg = False,
        ob = True, liq = False, time_text = '''', entry_s = Blank, stop_s = Blank,
        atr_s = Blank, acct_s = Blank, risk_pct_s = Blank \<rparr>"
        "[(Time 9 0, Time 11 0)]" "[]"]
  by simp

section \<open>The timing rule\<close>

lemma outside_neq:
  "reason_unclear \<noteq> reason_outside" "reason_mismatch_long \<noteq> reason_outside"
  "reason_mismatch_short \<noteq> reason_outside" "reason_consolidation \<noteq> reason_outside"
  "reason_no_ict \<noteq> reason_outside" "reason_no_pattern \<noteq> reason_outside"
  "reason_no_confluence \<noteq> reason_outside" "reason_no_stop \<noteq> reason_outside"
  "reason_no_entry \<noteq> reason_outside"
  by (simp_all add: reason_unclear_def reason_mismatch_long_def reason_mismatch_short_def
        reason_consolidation_def reason_no_ict_def reason_no_pattern_def
        reason_no_confluence_def reason_no_stop_def reason_no_entry_def reason_outside_def)

lemma engine_outside:
  "(reason_outside \<in> set (fst (snd (rules_engine d s e p fv obk lq ws ts ok)))) =
     (ws \<noteq> [] \<and> ts \<noteq> [] \<and> \<not> ok)"
  by (cases d; cases s; cases e)
     (simp_all add: rule_defs Let_def outside_neq outside_neq [symmetric])

lemma stop_notes_not_outside:
  "Text reason_outside \<notin> set (snd (snd (stop_stage d en sp a)))"
  by (simp add: stop_stage_def outside_neq outside_neq [symmetric] split: option.split prod.split)

lemma run_engine_reasons:
  "reasons (run_engine i ws) =
     map Text (fst (snd (rules_engine (direction i) (structure_1h i) (market_env i)
            (patterns_of (strip (patterns_text i))) (fvg i) (ob i) (liq i) ws
            (strip (time_text i)) (check_time (strip (time_text i)) ws))))
     @ snd (snd (stop_stage (direction i) (float_or_none (entry_s i))
                   (float_or_none (stop_s i))
                   (if float_or_none (entry_s i) \<noteq> None \<and> float_or_none (stop_s i) = None
                    then float_or_none (atr_s i) else None)))"
  by (simp add: run_engine_def Let_def)

lemma run_engine_outside:
  "(Text reason_outside \<in> set (reasons (run_engine i ws))) =
     (ws \<noteq> [] \<and> strip (time_text i) \<noteq> [] \<and> \<not> time_ok (run_engine i ws))"
proof -
  have inj: "\<And>xs. (Text reason_outside \<in> Text ` set xs) = (reason_outside \<in> set xs)"
    by auto
  show ?thesis
    unfolding run_engine_reasons run_engine_fields(1)
    by (simp add: stop_notes_not_outside engine_outside inj)
qed

lemma check_time_nil: "check_time ts [] = True"
  by (simp add: check_time_def split: option.split)

lemma check_time_malformed: "parse_time_str ts = None \<Longrightarrow> check_time ts ws = True"
  by (simp add: check_time_def)

lemma rule_timing_nil: "rule_timing [] ts ok st = st"
  by (simp add: rule_timing_def split: prod.split)

lemma rules_engine_nil:
  "rules_engine d s e p fv obk lq [] ts ok = rules_engine d s e p fv obk lq [] [] True"
  by (simp add: rules_engine_def rule_timing_nil Let_def)

lemma rule_timing_ok_reasons: "snd (rule_timing ws ts True st) = snd st"
  by (simp add: rule_timing_def split: prod.split)

lemma rules_engine_ok_reasons:
  "snd (rules_engine d s e p fv obk lq ws ts True) = snd (rules_engine d s e p fv obk lq ws [] True)"
  by (simp add: rules_engine_def rule_timing_ok_reasons Let_def)

lemma run_engine_time_nil:
  "run_engine (i\<lparr>time_text := t\<rparr>) [] = run_engine i []"
proof -
  have "\<And>j. run_engine j [] = run_engine (j\<lparr>time_text := []\<rparr>) []"
    by (simp add: run_engine_def Let_def check_time_nil rules_engine_nil [where ts = "strip _"])
  from this [of "i\<lparr>time_text := t\<rparr>"] this [of i] show ?thesis by simp
qed

text \<open>
  C7: with no trading window configured the time check does not restrict: \<open>time_ok\<close>
  is true for every setup-time text, the whole result (score and reasons included) is
  the same for every setup-time text, and no outside-window reason is recorded.
\<close>

theorem C7_no_windows:
  "time_ok (run_engine i []) = True
   \<and> run_engine (i\<lparr>time_text := t\<rparr>) [] = run_engine i []
   \<and> Text reason_outside \<notin> set (reasons (run_engine i []))
   \<and> (strip (win_text i) = [] \<longrightarrow> main (i\<lparr>time_text := t\<rparr>) = main i)"
proof -
  have a: "time_ok (run_engine i []) = True"
    by (simp add: run_engine_fields check_time_nil)
  have b: "run_engine (i\<lparr>time_text := t\<rparr>) [] = run_engine i []"
    by (rule run_engine_time_nil)
  have c: "Text reason_outside \<notin> set (reasons (run_engine i []))"
    by (simp add: run_engine_outside)
  have d: "main (i\<lparr>time_text := t\<rparr>) = main i" if "strip (win_text i) = []"
    using that b by (simp add: main_def)
  from a b c d show ?thesis by blast
qed

theorem C7_no_windows_witness:
  "time_ok (run_engine
      \<lparr> win_text = '''', direction = Long, structure_1h = Higher,
        market_env = Expansion, patterns_text = ''breakout'', fvg = True,
        ob = False, liq = False, time_text = ''23:59'', entry_s = Blank, stop_s = Blank,
        atr_s = Blank, acct_s = Blank, risk_pct_s = Blank \<rparr> []) = True
   \<and> run_engine
      \<lparr> win_text = '''', direction = Long, structure_1h = Higher,
        market_env = Expansion, patterns_text = ''breakout'', fvg = True,
        ob = False, liq = False, time_text = ''03:00'', entry_s = Blank, stop_s = Blank,
        atr_s = Blank, acct_s = Blank, risk_pct_s = Blank \<rparr> []
     = run_engine
      \<lparr> win_text = '''', direction = Long, structure_1h = Higher,
        market_env = Expansion, patterns_text = ''breakout'', fvg = True,
        ob = False, liq = False, time_text = ''23:59'', entry_s = Blank, stop_s = Blank,
        atr_s = Blank, acct_s = Blank, risk_pct_s = Blank \<rparr> []"
  using C7_no_windows
    [of "\<lparr> win_text = '''', direction = Long, structure_1h = Higher,
        market_env = Expansion, patterns_text = ''breakout'', fvg = True,
        ob = False, liq = False, time_text = ''23:59'', entry_s = Blank, stop_s = Blank,
        atr_s = Blank, acct_s = Blank, risk_pct_s = Blank \<rparr>" "''03:00''"]
  by simp

lemma malformed_25_99:
  "strip ''25:99'' = ''25:99''" "parse_time_str ''25:99'' = None"
  by (simp_all add: parse_time_str_def strip_def is_space_def py_int_def int_strip_def is_int_space_def digit_val_def
        mk_time_def Let_def)

lemma malformed_time_fields:
  assumes "parse_time_str (strip (time_text i)) = None"
  shows "time_ok (run_engine i ws) = True"
    and "reasons (run_engine i ws) = reasons (run_engine (i\<lparr>time_text := ''''\<rparr>) ws)"
    and "should_trade (run_engine i ws) = should_trade (run_engine (i\<lparr>time_text := ''''\<rparr>) ws)"
    and "suggested_stop (run_engine i ws) = suggested_stop (run_engine (i\<lparr>time_text := ''''\<rparr>) ws)"
    and "stop_distance (run_engine i ws) = stop_distance (run_engine (i\<lparr>time_text := ''''\<rparr>) ws)"
    and "tps (run_engine i ws) = tps (run_engine (i\<lparr>time_text := ''''\<rparr>) ws)"
    and "pos_hint (run_engine i ws) = pos_hint (run_engine (i\<lparr>time_text := ''''\<rparr>) ws)"
proof -
  have ok: "check_time (strip (time_text i)) ws = True"
    using assms by (rule check_time_malformed)
  have ok0: "check_time [] ws = True" by (simp add: check_time_def)
  show "time_ok (run_engine i ws) = True" by (simp add: run_engine_fields ok)
  show "reasons (run_engine i ws) = reasons (run_engine (i\<lparr>time_text := ''''\<rparr>) ws)"
    by (simp add: run_engine_reasons ok ok0
          rules_engine_ok_reasons [where ts = "strip (time_text i)"])
  show "should_trade (run_engine i ws) = should_trade (run_engine (i\<lparr>time_text := ''''\<rparr>) ws)"
    by (simp add: run_engine_fields engine_should_trade)
  show "suggested_stop (run_engine i ws) = suggested_stop (run_engine (i\<lparr>time_text := ''''\<rparr>) ws)"
    "stop_distance (run_engine i ws) = stop_distance (run_engine (i\<lparr>time_text := ''''\<rparr>) ws)"
    "tps (run_engine i ws) = tps (run_engine (i\<lparr>time_text := ''''\<rparr>) ws)"
    "pos_hint (run_engine i ws) = pos_hint (run_engine (i\<lparr>time_text := ''''\<rparr>) ws)"
    by (simp_all add: run_engine_def Let_def)
qed

text \<open>
  With windows configured, a setup time that does not parse still scores the timing
  point, because rule 4 tests the typed text and not the parsed time.
\<close>

lemma malformed_time_scores_inside:
  assumes "strip (time_text i) \<noteq> []" and "parse_time_str (strip (time_text i)) = None"
    and "ws \<noteq> []"
  shows "score (run_engine i ws) = score (run_engine (i\<lparr>time_text := ''''\<rparr>) ws) + 1"
proof -
  have ok: "check_time (strip (time_text i)) ws = True"
    using assms(2) by (rule check_time_malformed)
  have ok0: "check_time [] ws = True" by (simp add: check_time_def)
  show ?thesis
    using assms(1,3)
    by (simp add: run_engine_fields ok ok0 rules_engine_def rule_timing_def Let_def
          split: prod.split)
qed

text \<open>Only the windows text can end the run; the setup-time text cannot.\<close>

lemma main_abort_time_free:
  "(main (i\<lparr>time_text := t\<rparr>) = Inl e) = (main i = Inl e)"
  by (simp add: main_def Let_def split: sum.split)

text \<open>
  A malformed setup time (25:99) with entry and stop given and no windows: the reasons
  of the result are empty, so no advisory reason about the time was recorded.
\<close>

theorem C8_counterexample:
  "strip ''25:99'' \<noteq> [] \<and> parse_time_str (strip ''25:99'') = None
   \<and> reasons (run_engine
        \<lparr> win_text = '''', direction = Long, structure_1h = Higher,
          market_env = Expansion, patterns_text = ''breakout'', fvg = True,
          ob = False, liq = False, time_text = ''25:99'', entry_s = Numeric (11 / 10),
          stop_s = Numeric (219 / 200), atr_s = Blank, acct_s = Blank,
          risk_pct_s = Blank \<rparr> []) = []"
proof -
  have pc: "pattern_confirm [''breakout'']" by (simp add: pattern_confirm_def)
  have ic: "ict_confirm True False False" by (simp add: ict_confirm_def)
  show ?thesis
    by (simp add: malformed_25_99 run_engine_reasons patterns_breakout rule_defs pc ic Let_def
          stop_stage_def float_or_none_def py_float_def)
qed

text \<open>
  C8 (amended): for every setup whose setup-time text is non-empty but does not parse,
  the run goes on and the time is never counted as outside the windows
  (\<open>time_ok\<close> is true, no outside-window reason, the run ends with an exception
  only if it does so with a blank time); reasons, \<open>should_trade\<close>, stop,
  stop distance, targets and sizing hint are those of the same setup with a blank time,
  so no reason about the malformed time is recorded in the result; and with no windows
  configured the whole result, score included, is that of the blank time.
\<close>

theorem C8_malformed_time:
  "strip (time_text i) \<noteq> [] \<and> parse_time_str (strip (time_text i)) = None \<longrightarrow>
     time_ok (run_engine i ws) = True
     \<and> Text reason_outside \<notin> set (reasons (run_engine i ws))
     \<and> reasons (run_engine i ws) = reasons (run_engine (i\<lparr>time_text := ''''\<rparr>) ws)
     \<and> should_trade (run_engine i ws) = should_trade (run_engine (i\<lparr>time_text := ''''\<rparr>) ws)
     \<and> suggested_stop (run_engine i ws) = suggested_stop (run_engine (i\<lparr>time_text := ''''\<rparr>) ws)
     \<and> stop_distance (run_engine i ws) = stop_distance (run_engine (i\<lparr>time_text := ''''\<rparr>) ws)
     \<and> tps (run_engine i ws) = tps (run_engine (i\<lparr>time_text := ''''\<rparr>) ws)
     \<and> pos_hint (run_engine i ws) = pos_hint (run_engine (i\<lparr>time_text := ''''\<rparr>) ws)
     \<and> (ws = [] \<longrightarrow> run_engine i ws = run_engine (i\<lparr>time_text := ''''\<rparr>) ws)
     \<and> (main i = Inl e) = (main (i\<lparr>time_text := ''''\<rparr>) = Inl e)"
proof (intro impI)
  assume h: "strip (time_text i) \<noteq> [] \<and> parse_time_str (strip (time_text i)) = None"
  then have p: "parse_time_str (strip (time_text i)) = None" by simp
  note f = malformed_time_fields [OF p, of ws]
  have out: "Text reason_outside \<notin> set (reasons (run_engine i ws))"
    by (simp add: run_engine_outside f(1))
  have nil: "run_engine i ws = run_engine (i\<lparr>time_text := ''''\<rparr>) ws" if "ws = []"
    using that run_engine_time_nil [where i = i and t = "''''"] by simp
  note ab = main_abort_time_free [where i = i and t = "''''" and e = e, symmetric]
  from f out nil ab show "time_ok (run_engine i ws) = True
     \<and> Text reason_outside \<notin> set (reasons (run_engine i ws))
     \<and> reasons (run_engine i ws) = reasons (run_engine (i\<lparr>time_text := ''''\<rparr>) ws)
     \<and> should_trade (run_engine i ws) = should_trade (run_engine (i\<lparr>time_text := ''''\<rparr>) ws)
     \<and> suggested_stop (run_engine i ws) = suggested_stop (run_engine (i\<lparr>time_text := ''''\<rparr>) ws)
     \<and> stop_distance (run_engine i ws) = stop_distance (run_engine (i\<lparr>time_text := ''''\<rparr>) ws)
     \<and> tps (run_engine i ws) = tps (run_engine (i\<lparr>time_text := ''''\<rparr>) ws)
     \<and> pos_hint (run_engine i ws) = pos_hint (run_engine (i\<lparr>time_text := ''''\<rparr>) ws)
     \<and> (ws = [] \<longrightarrow> run_engine i ws = run_engine (i\<lparr>time_text := ''''\<rparr>) ws)
     \<and> (main i = Inl e) = (main (i\<lparr>time_text := ''''\<rparr>) = Inl e)"
    by blast
qed

theorem C8_malformed_time_witness:
  "strip ''25:99'' \<noteq> [] \<and> parse_time_str (strip ''25:99'') = None
   \<and> time_ok (run_engine
        \<lparr> win_text = ''09:00-11:00'', direction = Long, structure_1h = Higher,
          market_env = Expansion, patterns_text = ''breakout'', fvg = True,
          ob = False, liq = False, time_text = ''25:99'', entry_s = Blank,
          stop_s = Blank, atr_s = Blank, acct_s = Blank,
          risk_pct_s = Blank \<rparr> [(Time 9 0, Time 11 0)]) = True
   \<and> reasons (run_engine
        \<lparr> win_text = ''09:00-11:00'', direction = Long, structure_1h = Higher,
          market_env = Expansion, patterns_text = ''breakout'', fvg = True,
          ob = False, liq = False, time_text = ''25:99'', entry_s = Blank,
          stop_s = Blank, atr_s = Blank, acct_s = Blank,
          risk_pct_s = Blank \<rparr> [(Time 9 0, Time 11 0)])
     = reasons (run_engine
        \<lparr> win_text = ''09:00-11:00'', direction = Long, structure_1h = Higher,
          market_env = Expansion, patterns_text = ''breakout'', fvg = True,
          ob = False, liq = False, time_text = '''', entry_s = Blank,
          stop_s = Blank, atr_s = Blank, acct_s = Blank,
          risk_pct_s = Blank \<rparr> [(Time 9 0, Time 11 0)])"
  using C8_malformed_time
    [of "\<lparr> win_text = ''09:00-11:00'', direction = Long, structure_1h = Higher,
          market_env = Expansion, patterns_text = ''breakout'', fvg = True,
          ob = False, liq = False, time_text = ''25:99'', entry_s = Blank,
          stop_s = Blank, atr_s = Blank, acct_s = Blank,
          risk_pct_s = Blank \<rparr>" "[(Time 9 0, Time 11 0)]"]
  by (simp add: malformed_25_99)

section \<open>Targets, window parsing and sizing\<close>

text \<open>
  The exponent chosen by \<open>float_exponent\<close> is the one of binary64: for a quotient of
  positive integers the bit lengths locate the value within a factor of four, and one
  comparison settles it, so that the significand has exactly 53 bits.
\<close>

lemma quotient_between:
  fixes p q :: int
  assumes "0 < p" "0 < q"
  shows "(2::rat) powi (bitlen p - bitlen q - 1) < of_int p / of_int q"
    and "of_int p / of_int q < (2::rat) powi (bitlen p - bitlen q + 1)"
proof -
  from bitlen_bounds [OF assms(1)]
  have p1: "2 ^ nat (bitlen p - 1) \<le> p" and p2: "p < 2 ^ nat (bitlen p)"
    by simp_all
  from bitlen_bounds [OF assms(2)]
  have q1: "2 ^ nat (bitlen q - 1) \<le> q" and q2: "q < 2 ^ nat (bitlen q)"
    by simp_all
  have bp: "1 \<le> bitlen p"
    using assms(1) bitlen_eq_zero_iff [of p] bitlen_nonneg [of p] by linarith
  have bq: "1 \<le> bitlen q"
    using assms(2) bitlen_eq_zero_iff [of q] bitlen_nonneg [of q] by linarith
  have P1: "(2::rat) powi (bitlen p - 1) \<le> of_int p"
  proof -
    have "(of_int (2 ^ nat (bitlen p - 1)) :: rat) \<le> of_int p"
      using p1 by (simp only: of_int_le_iff)
    then show ?thesis using bp by (simp add: power_int_def)
  qed
  have P2: "of_int p < (2::rat) powi (bitlen p)"
  proof -
    have "(of_int p :: rat) < of_int (2 ^ nat (bitlen p))"
      using p2 by (simp only: of_int_less_iff)
    then show ?thesis using bp by (simp add: power_int_def)
  qed
  have Q1: "(2::rat) powi (bitlen q - 1) \<le> of_int q"
  proof -
    have "(of_int (2 ^ nat (bitlen q - 1)) :: rat) \<le> of_int q"
      using q1 by (simp only: of_int_le_iff)
    then show ?thesis using bq by (simp add: power_int_def)
  qed
  have Q2: "of_int q < (2::rat) powi (bitlen q)"
  proof -
    have "(of_int q :: rat) < of_int (2 ^ nat (bitlen q))"
      using q2 by (simp only: of_int_less_iff)
    then show ?thesis using bq by (simp add: power_int_def)
  qed
  have qpos: "(0::rat) < of_int q" using assms(2) by simp
  have ppos: "(0::rat) < of_int p" using assms(1) by simp
  have "(2::rat) powi (bitlen p - bitlen q - 1) = 2 powi (bitlen p - 1) / 2 powi (bitlen q)"
    by (simp add: power_int_diff)
  also have "\<dots> \<le> of_int p / 2 powi (bitlen q)"
    using P1 by (simp add: divide_right_mono)
  also have "\<dots> < of_int p / of_int q"
    using Q2 ppos qpos by (simp add: divide_strict_left_mono)
  finally show "(2::rat) powi (bitlen p - bitlen q - 1) < of_int p / of_int q" .
  have "of_int p / of_int q < (2::rat) powi (bitlen p) / of_int q"
    using P2 qpos by (simp add: divide_strict_right_mono)
  also have "\<dots> \<le> 2 powi (bitlen p) / 2 powi (bitlen q - 1)"
    using Q1 by (intro frac_le) simp_all
  also have "\<dots> = (2::rat) powi (bitlen p - bitlen q + 1)"
    by (simp add: power_int_diff power_int_add)
  finally show "of_int p / of_int q < (2::rat) powi (bitlen p - bitlen q + 1)" .
qed

lemma float_exponent_normal:
  assumes "x \<noteq> 0" and "- 1074 < float_exponent x"
  shows "2 ^ 52 \<le> \<bar>x\<bar> / 2 powi (float_exponent x)"
    and "\<bar>x\<bar> / 2 powi (float_exponent x) < 2 ^ 53"
proof -
  obtain p q where pq: "quotient_of \<bar>x\<bar> = (p, q)" by (cases "quotient_of \<bar>x\<bar>")
  then have q: "0 < q" by (rule quotient_of_denom_pos)
  have ax: "\<bar>x\<bar> = of_int p / of_int q" using pq by (rule quotient_of_div)
  have "0 < \<bar>x\<bar>" using assms(1) by simp
  then have p: "0 < p" using q unfolding ax by (simp add: zero_less_divide_iff)
  define e0 where "e0 = bitlen p - bitlen q - 53"
  define y where "y = \<bar>x\<bar> / 2 powi e0"
  define e1 where "e1 = (if 2 ^ 53 \<le> y then e0 + 1 else e0)"
  have fe: "float_exponent x = max (- 1074) e1"
    by (simp add: float_exponent_def pq e0_def e1_def y_def Let_def)
  with assms(2) have e: "float_exponent x = e1" by linarith
  have lo: "2 ^ 52 < y"
  proof -
    have "(2::rat) powi (bitlen p - bitlen q - 1) = 2 ^ 52 * 2 powi e0"
      by (simp add: e0_def power_int_diff power_int_add)
    with quotient_between(1) [OF p q] have "2 ^ 52 * 2 powi e0 < \<bar>x\<bar>" by (simp add: ax)
    then show ?thesis by (simp add: y_def pos_less_divide_eq)
  qed
  have hi: "y < 2 ^ 54"
  proof -
    have "(2::rat) powi (bitlen p - bitlen q + 1) = 2 ^ 54 * 2 powi e0"
      by (simp add: e0_def power_int_diff power_int_add)
    with quotient_between(2) [OF p q] have "\<bar>x\<bar> < 2 ^ 54 * 2 powi e0" by (simp add: ax)
    then show ?thesis by (simp add: y_def pos_divide_less_eq)
  qed
  have y1: "\<bar>x\<bar> / 2 powi e1 = (if 2 ^ 53 \<le> y then y / 2 else y)"
    by (simp add: e1_def y_def power_int_add)
  show "2 ^ 52 \<le> \<bar>x\<bar> / 2 powi (float_exponent x)"
    unfolding e y1 using lo by simp
  show "\<bar>x\<bar> / 2 powi (float_exponent x) < 2 ^ 53"
    unfolding e y1 using hi by simp
qed

lemma fl_zero: "fl 0 = 0"
  by (simp add: fl_def)

text \<open>The floats that the decimals 1.1, 1.095, 1.105 and 1.11 denote.\<close>

lemma fl_decimals:
  "fl (11 / 10) = 2476979795053773 / 2251799813685248"
  "fl (219 / 200) = 4931441591970693 / 4503599627370496"
  "fl (221 / 200) = 2488238794122199 / 2251799813685248"
  "fl (111 / 100) = 4998995586381251 / 4503599627370496"
  by code_simp+

text \<open>
  Runs where the binary rounding decides the fifth decimal. Entry 1 and stop
  0.99997, long, multiple 1.5: the float sum lies above 1.000045 and rounds to
  1.00005. Entry 1, long, ATR 0.00001: the float difference lies above 0.999985 and
  the stop is 0.99999, with distance 0.00002. Entry 2.36434 and stop 2.36177, long,
  multiple 1.5: the float sum lies above 2.368195 and rounds to 2.3682.
\<close>

lemma r_multiples_above_tie:
  "r_multiples 1 (fl (99997 / 100000)) Long [3 / 2] = [(3 / 2, fl (100005 / 100000))]"
  by code_simp

lemma suggest_stop_above_tie:
  "suggest_stop_from_atr 1 Long (fl (1 / 100000)) (3 / 2)
     = (fl (99999 / 100000), fl (2 / 100000))"
  by code_simp

lemma r_multiples_above_tie_2:
  "r_multiples (fl (236434 / 100000)) (fl (236177 / 100000)) Long [3 / 2]
     = [(3 / 2, fl (23682 / 10000))]"
  by code_simp

lemma r_multiples_short_example:
  "r_multiples (fl (11 / 10)) (fl (219 / 200)) Short [3 / 2] = [(3 / 2, fl (10925 / 10000))]"
  by code_simp

lemma r_multiples_loop_eq:
  "r_multiples_loop e d sd rs acc =
     acc @ map (\<lambda>r. (r, if d = Long then py_round5 (fadd e (fmul sd r))
                         else py_round5 (fsub e (fmul sd r)))) rs"
  by (induction rs arbitrary: acc) (simp_all add: Let_def)

lemma r_multiples_eq:
  "r_multiples e s d rs =
     map (\<lambda>r. (r, if d = Long then py_round5 (fadd e (fmul \<bar>fsub e s\<bar> r))
                   else py_round5 (fsub e (fmul \<bar>fsub e s\<bar> r)))) rs"
  by (simp add: r_multiples_def r_multiples_loop_eq)

text \<open>
  Entry 1 and stop 1 - 2^-20, long, multiple 1: the target is 1, not
  entry + |entry - stop| * 1 = 1 + 2^-20. Entry and stop both 1 + 2^-20: the target is
  1, not the entry. Every value here is a binary fraction, and every operation on
  them is exact in floating point.
\<close>

theorem C9_counterexample:
  "r_multiples 1 (1048575 / 1048576) Long [1] = [(1, 1)]
   \<and> (1::rat) + \<bar>1 - 1048575 / 1048576\<bar> * 1 \<noteq> 1
   \<and> r_multiples (1048577 / 1048576) (1048577 / 1048576) Short [1] = [(1, 1)]
   \<and> (1048577 / 1048576 :: rat) \<noteq> 1"
proof -
  have a: "r_multiples 1 (1048575 / 1048576) Long [1] = [(1, 1)]"
    by code_simp
  have b: "r_multiples (1048577 / 1048576) (1048577 / 1048576) Short [1] = [(1, 1)]"
    by code_simp
  show ?thesis using a b by simp
qed

text \<open>
  C9 (amended): \<open>r_multiples\<close> returns one pair per multiple, in the order of the
  multiples, with price \<open>round(entry + |entry - stop| * multiple, 5)\<close> for long and
  \<open>round(entry - |entry - stop| * multiple, 5)\<close> for short, every operation being the
  float one; entry 1.1000, stop 1.0950, long, multiples 1 and 2 give 1.1050 and 1.1100;
  with |entry - stop| = 0 the result is still produced and every price is the entry
  rounded to five decimals.
\<close>

theorem C9_r_multiples:
  "length (r_multiples e s d rs) = length rs
   \<and> map fst (r_multiples e s d rs) = rs
   \<and> (\<forall>k < length rs.
        r_multiples e s d rs ! k =
          (rs ! k, if d = Long then py_round5 (fadd e (fmul \<bar>fsub e s\<bar> (rs ! k)))
                   else py_round5 (fsub e (fmul \<bar>fsub e s\<bar> (rs ! k)))))
   \<and> r_multiples (fl (11 / 10)) (fl (219 / 200)) Long [1, 2]
       = [(1, fl (221 / 200)), (2, fl (111 / 100))]
   \<and> (\<bar>fsub e s\<bar> = 0 \<and> fl e = e
        \<longrightarrow> map snd (r_multiples e s d rs) = map (\<lambda>r. py_round5 e) rs)"
proof -
  have ex: "r_multiples (fl (11 / 10)) (fl (219 / 200)) Long [1, 2]
       = [(1, fl (221 / 200)), (2, fl (111 / 100))]"
    by code_simp
  have z: "map snd (r_multiples e s d rs) = map (\<lambda>r. py_round5 e) rs"
    if "\<bar>fsub e s\<bar> = 0 \<and> fl e = e"
    unfolding r_multiples_eq using that
    by (simp add: comp_def fmul_def fadd_def fl_zero) (simp add: fsub_def)
  have m: "map fst (r_multiples e s d rs) = rs"
    unfolding r_multiples_eq by (simp add: comp_def)
  have n: "\<forall>k < length rs.
        r_multiples e s d rs ! k =
          (rs ! k, if d = Long then py_round5 (fadd e (fmul \<bar>fsub e s\<bar> (rs ! k)))
                   else py_round5 (fsub e (fmul \<bar>fsub e s\<bar> (rs ! k))))"
    unfolding r_multiples_eq by simp
  have l: "length (r_multiples e s d rs) = length rs"
    unfolding r_multiples_eq by simp
  from l m n ex z show ?thesis by blast
qed

theorem C9_r_multiples_witness:
  "\<bar>fsub 2 2\<bar> = 0 \<and> fl 2 = 2
   \<and> r_multiples 2 2 Short [1, 3 / 2] ! 1 = (3 / 2, 2)
   \<and> map snd (r_multiples 2 2 Short [1, 3 / 2]) = [2, 2]"
proof -
  have f: "fl 2 = 2" by code_simp
  have r: "py_round5 2 = 2" by code_simp
  have s: "fsub 2 2 = 0" by (simp add: fsub_def fl_zero)
  have s0: "fsub 2 0 = 2" by (simp add: fsub_def f)
  show ?thesis
    using C9_r_multiples [where e = 2 and s = 2 and d = Short and rs = "[1, 3 / 2]"]
    by (simp add: f r s s0 fmul_def fl_zero)
qed

lemma r_multiples_main_nonempty: "r_multiples e s d [1, 3 / 2, 2] \<noteq> []"
  by (simp add: r_multiples_eq)

lemma run_engine_stops:
  "suggested_stop (run_engine i ws) =
     fst (stop_stage (direction i) (float_or_none (entry_s i)) (float_or_none (stop_s i))
            (if float_or_none (entry_s i) \<noteq> None \<and> float_or_none (stop_s i) = None
             then float_or_none (atr_s i) else None))"
  "tps (run_engine i ws) =
     take_profits (direction i) (float_or_none (entry_s i))
       (suggested_stop (run_engine i ws)) (float_or_none (stop_s i))"
  "pos_hint (run_engine i ws) =
     position_sizing (acct_s i) (risk_pct_s i) (float_or_none (entry_s i))
       (float_or_none (stop_s i)) (suggested_stop (run_engine i ws))"
  by (simp_all add: run_engine_def Let_def)

lemma stop_stage_keeps_given:
  "fst (stop_stage d en (Some sp) a) = Some sp"
  by (simp add: stop_stage_def split: option.split)

lemma take_profits_nonempty_iff:
  "(take_profits d en sugg sp \<noteq> []) =
     (en \<noteq> None \<and> (truthy sugg \<or> truthy sp) \<and> used_stop_of sugg sp \<noteq> None)"
  by (cases en; cases "used_stop_of sugg sp")
     (simp_all add: take_profits_def r_multiples_main_nonempty)

text \<open>
  What the guard does: targets exist exactly when the entry exists and the stop used
  exists and is not zero.
\<close>

lemma tps_nonempty_iff:
  "(tps (run_engine i ws) \<noteq> []) =
     (float_or_none (entry_s i) \<noteq> None
      \<and> (\<exists>s. suggested_stop (run_engine i ws) = Some s \<and> s \<noteq> 0))"
proof (cases "float_or_none (stop_s i)")
  case None
  then show ?thesis
    unfolding run_engine_stops(2) take_profits_nonempty_iff
    by (cases "suggested_stop (run_engine i ws)") (simp_all add: truthy_def used_stop_of_def)
next
  case (Some sp)
  then have "suggested_stop (run_engine i ws) = Some sp"
    by (simp add: run_engine_stops(1) stop_stage_keeps_given)
  with Some show ?thesis
    unfolding run_engine_stops(2) take_profits_nonempty_iff
    by (simp add: truthy_def used_stop_of_def)
qed

text \<open>
  C5: the targets should be non-empty exactly when an entry and a resolved stop exist.
  With entry 1 and a given stop of 0 both exist (the stop used is 0), but the list of
  targets is empty: the guard tests the truth value of the stop, not its presence.
\<close>

theorem C5_zero_stop_no_targets:
  "float_or_none (Numeric 1) = Some 1 \<and> float_or_none (Numeric 0) = Some 0
   \<and> suggested_stop (run_engine
        \<lparr> win_text = '''', direction = Long, structure_1h = Higher,
          market_env = Expansion, patterns_text = ''breakout'', fvg = True,
          ob = False, liq = False, time_text = '''', entry_s = Numeric 1,
          stop_s = Numeric 0, atr_s = Blank, acct_s = Blank,
          risk_pct_s = Blank \<rparr> []) = Some 0
   \<and> tps (run_engine
        \<lparr> win_text = '''', direction = Long, structure_1h = Higher,
          market_env = Expansion, patterns_text = ''breakout'', fvg = True,
          ob = False, liq = False, time_text = '''', entry_s = Numeric 1,
          stop_s = Numeric 0, atr_s = Blank, acct_s = Blank,
          risk_pct_s = Blank \<rparr> []) = []"
  by (simp add: run_engine_stops float_or_none_def py_float_def stop_stage_def
        take_profits_def truthy_def)

lemma parse_0930: "parse_time_str ''09:30'' = Some (Time 9 30)"
  "parse_time_str ''11:30'' = Some (Time 11 30)"
  "parse_time_str ''13:00'' = Some (Time 13 0)"
  "parse_time_str ''15:00'' = Some (Time 15 0)"
  "parse_time_str ''25:00'' = None"
  by (simp_all add: parse_time_str_def strip_def is_space_def py_int_def int_strip_def is_int_space_def digit_val_def
        mk_time_def Let_def)

text \<open>
  C4: malformed tokens should be dropped and parsing should never fail as a whole. A
  token with two dashes raises \<^verbatim>\<open>ValueError\<close> in the unpacking, and the run ends
  there; tokens without a dash or with a time that does not parse are dropped.
\<close>

theorem C4_extra_dash_aborts:
  "parse_windows_input ''09:30-11:30-12:00'' = Inl ValueError
   \<and> main \<lparr> win_text = ''09:30-11:30-12:00'', direction = Long, structure_1h = Higher,
          market_env = Expansion, patterns_text = ''breakout'', fvg = True,
          ob = False, liq = False, time_text = '''', entry_s = Blank,
          stop_s = Blank, atr_s = Blank, acct_s = Blank,
          risk_pct_s = Blank \<rparr> = Inl ValueError
   \<and> parse_windows_input ''09:30-11:30,lunch,13:00-25:00,13:00-15:00''
       = Inr [(Time 9 30, Time 11 30), (Time 13 0, Time 15 0)]"
proof -
  have a: "parse_windows_input ''09:30-11:30-12:00'' = Inl ValueError"
    by (simp add: parse_windows_input_def strip_def is_space_def)
  have s: "strip ''09:30-11:30-12:00'' = ''09:30-11:30-12:00''"
    by (simp add: strip_def is_space_def)
  have b: "main \<lparr> win_text = ''09:30-11:30-12:00'', direction = Long, structure_1h = Higher,
          market_env = Expansion, patterns_text = ''breakout'', fvg = True,
          ob = False, liq = False, time_text = '''', entry_s = Blank,
          stop_s = Blank, atr_s = Blank, acct_s = Blank,
          risk_pct_s = Blank \<rparr> = Inl ValueError"
    by (simp add: main_def s a del: strip_plain)
  have c: "parse_windows_input ''09:30-11:30,lunch,13:00-25:00,13:00-15:00''
       = Inr [(Time 9 30, Time 11 30), (Time 13 0, Time 15 0)]"
    by (simp add: parse_windows_input_def strip_def is_space_def parse_0930)
  from a b c show ?thesis by blast
qed

lemma split_on_nonempty: "split_on c p \<noteq> []"
  by (induction p) (simp_all split: list.split)

lemma split_on_two: "c \<in> set p \<Longrightarrow> 2 \<le> length (split_on c p)"
  using split_on_nonempty [of c] by (induction p) (auto split: list.splits)

text \<open>Parsing returns whenever no token has more than one dash.\<close>

lemma parse_parts_returns:
  "\<forall>p \<in> set ps. length (split_on CHR ''-'' p) \<le> 2 \<Longrightarrow> \<exists>r. parse_parts ps acc = Inr r"
proof (induction ps arbitrary: acc)
  case Nil
  show ?case by simp
next
  case (Cons p ps)
  then have IH: "\<And>acc. \<exists>r. parse_parts ps acc = Inr r" by simp
  show ?case
  proof (cases "CHR ''-'' \<in> set p")
    case False
    then show ?thesis using IH by simp
  next
    case True
    then have "2 \<le> length (split_on CHR ''-'' p)" by (rule split_on_two)
    with Cons.prems have "length (split_on CHR ''-'' p) = 2" by simp
    then obtain a b where ab: "split_on CHR ''-'' p = [a, b]"
      by (cases "split_on CHR ''-'' p" rule: list.exhaust)
         (auto simp: length_Suc_conv)
    show ?thesis using True IH by (simp add: ab split: option.split)
  qed
qed



end
